theory Spec2Isabelle
  imports Complex_Main "HOL-Library.Multiset" "HOL-Library.Log_Nat"
begin

section \<open>Data model\<close>

text \<open>
  The search-data provider answers with JSON objects that the analyzer reads through
  \<^verbatim>\<open>dict.get\<close>. A key of such an object is either missing, present with the JSON value
  \<^verbatim>\<open>null\<close> (Python \<^verbatim>\<open>None\<close>), or present with a value.
\<close>

datatype 'a field = Absent | Null | Present 'a

text \<open>
  One per-keyword record of the provider (\<^verbatim>\<open>keyword_data\<close> in \<^verbatim>\<open>seo.py\<close>). The provider
  reports \<^verbatim>\<open>search_volume\<close> and \<^verbatim>\<open>competition_index\<close> as JSON integers and \<^verbatim>\<open>cpc\<close> as a JSON
  number. Python's unbounded integers are \<^typ>\<open>int\<close>. A Python float is the rational
  number it denotes, so \<^verbatim>\<open>raw_cpc\<close> holds the double that the JSON parser made of the
  provider's number, and every operation on floats rounds its exact result to the
  nearest double (\<open>nearest_double\<close> below).
\<close>

record keyword_data =
  raw_keyword :: "string field"
  raw_search_volume :: "int field"
  raw_competition :: "string field"
  raw_competition_index :: "int field"
  raw_cpc :: "rat field"

text \<open>
  The record built by \<^verbatim>\<open>_format_keyword_analytics\<close>. \<^verbatim>\<open>keyword\<close> and \<^verbatim>\<open>competition\<close> are
  \<^verbatim>\<open>None\<close> when the provider sent \<^verbatim>\<open>null\<close> for them.
\<close>

record enriched_keyword =
  keyword :: "string option"
  search_volume :: int
  competition :: "string option"
  competition_index :: int
  cpc :: rat
  difficulty_score :: int
  opportunity_score :: rat
  seo_insights :: "string list"

section \<open>Python primitives used by the analyzer\<close>

text \<open>\<^verbatim>\<open>d.get(k) or 0\<close>: a missing key, \<^verbatim>\<open>null\<close> and a zero all give \<^verbatim>\<open>0\<close>.\<close>

definition get_or_zero :: "'a::zero field \<Rightarrow> 'a" where
  "get_or_zero f = (case f of Present v \<Rightarrow> (if v = 0 then 0 else v) | Null \<Rightarrow> 0 | Absent \<Rightarrow> 0)"

text \<open>\<^verbatim>\<open>d.get(k, default)\<close>: only a missing key gives the default.\<close>

definition get_default :: "'a field \<Rightarrow> 'a \<Rightarrow> 'a option" where
  "get_default f d = (case f of Absent \<Rightarrow> Some d | Null \<Rightarrow> None | Present v \<Rightarrow> Some v)"

text \<open>The integer closest to a number, and the even one of two that are equally close.\<close>

definition round_half_even :: "rat \<Rightarrow> int" where
  "round_half_even x =
     (let f = \<lfloor>x\<rfloor>; d = x - of_int f
      in if d < 1 / 2 then f
         else if 1 / 2 < d then f + 1
         else if even f then f else f + 1)"

text \<open>
  Binary floating point (IEEE 754 double precision, the arithmetic of Python's
  \<^verbatim>\<open>float\<close>). The binary exponent of a number other than zero is the \<open>e\<close> with
  \<open>2\<^sup>e \<le> |x| < 2\<^sup>e\<^sup>+\<^sup>1\<close>. A double has 53 significant bits, so the doubles next to \<open>x\<close> are
  \<open>2\<^sup>e\<^sup>-\<^sup>5\<^sup>2\<close> apart, and never less than \<open>2\<^sup>-\<^sup>1\<^sup>0\<^sup>7\<^sup>4\<close>, the smallest positive double. Rounding
  goes to the nearest double and at a tie to the one with an even last bit. The model
  has no largest double: it is the program as long as the integers of the provider and
  the results stay below \<open>2\<^sup>1\<^sup>0\<^sup>2\<^sup>4\<close> in size, beyond which Python raises
  \<^verbatim>\<open>OverflowError\<close> or computes with \<^verbatim>\<open>inf\<close>.
\<close>

definition binary_exponent :: "rat \<Rightarrow> int" where
  "binary_exponent x =
     (let (p, q) = quotient_of \<bar>x\<bar>; d = bitlen p - bitlen q
      in if 2 powi d \<le> \<bar>x\<bar> then d else d - 1)"

definition ulp_exponent :: "rat \<Rightarrow> int" where
  "ulp_exponent x = max (binary_exponent x - 52) (- 1074)"

definition nearest_double :: "rat \<Rightarrow> rat" where
  "nearest_double x =
     of_int (round_half_even (x / 2 powi ulp_exponent x)) * 2 powi ulp_exponent x"

text \<open>
  \<^verbatim>\<open>a / b\<close>, \<^verbatim>\<open>a + b\<close> and \<^verbatim>\<open>a - b\<close> with a float result: the exact result, rounded once.
  (The quotient of two integers is rounded in this way too, and an integer operand of a
  float operation below \<open>2\<^sup>5\<^sup>3\<close> is converted without loss.)
\<close>

definition true_div :: "rat \<Rightarrow> rat \<Rightarrow> rat" where
  "true_div a b = nearest_double (a / b)"

definition float_add :: "rat \<Rightarrow> rat \<Rightarrow> rat" where
  "float_add a b = nearest_double (a + b)"

definition float_sub :: "rat \<Rightarrow> rat \<Rightarrow> rat" where
  "float_sub a b = nearest_double (a - b)"

text \<open>\<^verbatim>\<open>sum(...)\<close> of floats: from 0, one addition per element, left to right, as
  CPython computes it up to version 3.11 (later versions also carry the rounding errors
  of the additions along, which can change the last bit of the sum).\<close>

definition float_sum :: "rat list \<Rightarrow> rat" where
  "float_sum xs = foldl float_add 0 xs"

text \<open>
  \<^verbatim>\<open>round(x, n)\<close> of a float: the decimal with \<open>n\<close> places closest to the exact value of
  \<open>x\<close>, the even one of two that are equally close, and of that decimal the nearest
  double.
\<close>

definition py_round :: "rat \<Rightarrow> nat \<Rightarrow> rat" where
  "py_round x n = nearest_double (of_int (round_half_even (x * 10 ^ n)) / 10 ^ n)"

section \<open>Scorer\<close>

text \<open>\<^verbatim>\<open>_calculate_difficulty_score\<close>\<close>

definition calculate_difficulty_score :: "keyword_data \<Rightarrow> int" where
  "calculate_difficulty_score keyword_data =
     (let competition_index = get_or_zero (raw_competition_index keyword_data);
          search_volume = get_or_zero (raw_search_volume keyword_data);
          base_difficulty =
            (if competition_index \<ge> 80 then 85
             else if competition_index \<ge> 60 then 65
             else if competition_index \<ge> 40 then 45
             else 25);
          base_difficulty =
            (if search_volume > 10000 then base_difficulty + 10
             else if search_volume > 1000 then base_difficulty + 5
             else base_difficulty)
      in min 100 base_difficulty)"

text \<open>\<^verbatim>\<open>_calculate_opportunity_score\<close>\<close>

definition calculate_opportunity_score :: "keyword_data \<Rightarrow> rat" where
  "calculate_opportunity_score keyword_data =
     (let search_volume = get_or_zero (raw_search_volume keyword_data);
          competition_index = get_or_zero (raw_competition_index keyword_data);
          volume_score = min 50 (true_div (of_int search_volume) 200);
          competition_score = float_sub 50 (true_div (of_int competition_index) 2)
      in py_round (float_add volume_score competition_score) 1)"

text \<open>\<^verbatim>\<open>_generate_seo_insights\<close>: three appends to an initially empty list.\<close>

definition generate_seo_insights :: "keyword_data \<Rightarrow> string list" where
  "generate_seo_insights keyword_data =
     (let insights = [];
          search_volume = get_or_zero (raw_search_volume keyword_data);
          competition_index = get_or_zero (raw_competition_index keyword_data);
          cpc = get_or_zero (raw_cpc keyword_data);
          insights =
            (if search_volume > 5000
               then insights @ [''High search volume - excellent traffic potential'']
             else if search_volume > 1000
               then insights @ [''Good search volume - solid traffic opportunity'']
             else insights @ [''Low search volume - niche targeting opportunity'']);
          insights =
            (if competition_index < 50
               then insights @ [''Low competition - favorable ranking conditions'']
             else if competition_index < 80
               then insights @ [''Medium competition - moderate SEO effort required'']
             else insights @ [''High competition - intensive SEO strategy needed'']);
          insights =
            (if cpc > 5
               then insights @ [''High commercial value - strong monetization potential'']
             else if cpc > 1
               then insights @ [''Medium commercial value - decent revenue opportunity'']
             else insights @ [''Low commercial value - primarily informational intent''])
      in insights)"

text \<open>\<^verbatim>\<open>_format_keyword_analytics\<close>\<close>

definition format_keyword_analytics :: "keyword_data \<Rightarrow> enriched_keyword" where
  "format_keyword_analytics keyword_data =
     \<lparr> keyword = get_default (raw_keyword keyword_data) ''Unknown'',
       search_volume = get_or_zero (raw_search_volume keyword_data),
       competition = get_default (raw_competition keyword_data) ''UNKNOWN'',
       competition_index = get_or_zero (raw_competition_index keyword_data),
       cpc = get_or_zero (raw_cpc keyword_data),
       difficulty_score = calculate_difficulty_score keyword_data,
       opportunity_score = calculate_opportunity_score keyword_data,
       seo_insights = generate_seo_insights keyword_data \<rparr>"

section \<open>Ranker and summarizer\<close>

text \<open>
  \<^verbatim>\<open>list.sort(key=..., reverse=True)\<close>. Python's sort is stable, also in reverse: the list
  is reversed, sorted ascending by a stable sort and reversed again, so that records with
  equal keys keep their order. \<^const>\<open>sort_key\<close> is the stable ascending sort.
\<close>

definition sort_reverse :: "('a \<Rightarrow> 'k::linorder) \<Rightarrow> 'a list \<Rightarrow> 'a list" where
  "sort_reverse key xs = rev (sort_key key (rev xs))"

record summary_metrics =
  total_monthly_searches :: int
  average_cpc :: rat
  keywords_analyzed :: nat
  high_opportunity_keywords :: nat

text \<open>The summary metrics of \<^verbatim>\<open>_create_enhanced_analysis\<close> (``Calculate summary metrics''
  and the \<^verbatim>\<open>summary_metrics\<close> entry of the returned dictionary).\<close>

definition calculate_summary_metrics :: "enriched_keyword list \<Rightarrow> summary_metrics" where
  "calculate_summary_metrics enriched_keywords =
     (let total_searches = sum_list (map search_volume enriched_keywords);
          avg_cpc =
            (if enriched_keywords \<noteq> []
             then true_div (float_sum (map cpc enriched_keywords))
                    (of_nat (length enriched_keywords))
             else 0)
      in \<lparr> total_monthly_searches = total_searches,
           average_cpc = py_round avg_cpc 2,
           keywords_analyzed = length enriched_keywords,
           high_opportunity_keywords =
             length (filter (\<lambda>k. opportunity_score k > 70) enriched_keywords) \<rparr>)"

section \<open>JSON values, errors and effects\<close>

text \<open>What \<^verbatim>\<open>json.loads\<close> returns for the insight generator's answer. A number is
  its value; an object lists each of its keys once.\<close>

datatype json =
  JNull | JBool bool | JNum rat | JStr string | JArr "json list" | JObj "(string \<times> json) list"

text \<open>Python's truth value of such a value.\<close>

fun truthy :: "json \<Rightarrow> bool" where
  "truthy JNull = False"
| "truthy (JBool b) = b"
| "truthy (JNum n) = (n \<noteq> 0)"
| "truthy (JStr s) = (s \<noteq> [])"
| "truthy (JArr xs) = (xs \<noteq> [])"
| "truthy (JObj kvs) = (kvs \<noteq> [])"

datatype py_error =
  KeyError | IndexError | TypeError | AttributeError | APIError | JSONDecodeError
| RecursionError

text \<open>\<^verbatim>\<open>x.get(k, d)\<close>: only a dictionary has the method.\<close>

fun json_get :: "json \<Rightarrow> string \<Rightarrow> json \<Rightarrow> py_error + json" where
  "json_get (JObj kvs) k d = Inr (case map_of kvs k of None \<Rightarrow> d | Some v \<Rightarrow> v)"
| "json_get _ k d = Inl AttributeError"

text \<open>\<^verbatim>\<open>len(x)\<close>: a number, a truth value and \<^verbatim>\<open>None\<close> have no length.\<close>

fun py_len :: "json \<Rightarrow> py_error + nat" where
  "py_len (JStr s) = Inr (length s)"
| "py_len (JArr xs) = Inr (length xs)"
| "py_len (JObj kvs) = Inr (length kvs)"
| "py_len _ = Inl TypeError"

text \<open>
  The effects of a run, in order: log records (level and message, without the values
  interpolated into the message), the request to the language model, each entry into
  \<^verbatim>\<open>fetch_search_volume_data\<close> (what a call-counting test double of the volume enricher
  sees) and each request posted to the search-data provider, with the keywords sent.
  The text of the printed report is not modelled.
\<close>

datatype level = INFO | WARNING | ERROR

datatype event =
  Log level string
| OpenAIRequest string
| FetchSearchVolumeCall json
| ProviderPost json

text \<open>The provider's answer to the search-volume request, as the analyzer reads it.\<close>

record task =
  result :: "keyword_data list field"

record response_json =
  status_code :: "int field"
  status_message :: "string field"
  tasks :: "task list field"

text \<open>
  \<^verbatim>\<open>self.dataforseo_client.post(...)\<close> followed by \<^verbatim>\<open>response.json()\<close>: the request
  fails in transit, the body cannot be read as a JSON object, or it is a JSON object.
  The first two raise inside the \<^verbatim>\<open>try\<close> block of \<^verbatim>\<open>fetch_search_volume_data\<close>.
\<close>

datatype post_outcome = TransportFailure | InvalidBody | Body response_json

text \<open>
  The collaborators held by the analyzer: the language model (the website content to
  either an exception or the text of its answer), \<^verbatim>\<open>json.loads\<close> (a text to the
  value parsed, to \<^verbatim>\<open>JSONDecodeError\<close> for a text that is not JSON, or to another
  exception, as \<^verbatim>\<open>RecursionError\<close> for brackets nested too deep), and the provider's
  client, absent without credentials.
\<close>

record analyzer =
  openai_create :: "string \<Rightarrow> py_error + string"
  json_loads :: "string \<Rightarrow> py_error + json"
  dataforseo_client :: "(json \<Rightarrow> post_outcome) option"

section \<open>Volume enricher\<close>

text \<open>\<^verbatim>\<open>fetch_search_volume_data\<close>: every exception inside the \<^verbatim>\<open>try\<close> block is caught
  and turned into \<^verbatim>\<open>None\<close>.\<close>

definition fetch_search_volume_data ::
  "(json \<Rightarrow> post_outcome) option \<Rightarrow> json \<Rightarrow> response_json option \<times> event list" where
  "fetch_search_volume_data client keywords =
     (case client of
        None \<Rightarrow>
          (None, [FetchSearchVolumeCall keywords,
                  Log WARNING ''DataForSEO client not available - search volume data unavailable''])
      | Some post \<Rightarrow>
          (case py_len keywords of
             Inl e \<Rightarrow>
               (None, [FetchSearchVolumeCall keywords,
                       Log ERROR ''Failed to retrieve search volume data''])
           | Inr n \<Rightarrow>
               (let started = [FetchSearchVolumeCall keywords,
                               Log INFO ''Fetching search volume data for keywords'',
                               ProviderPost keywords]
                in case post keywords of
                     TransportFailure \<Rightarrow>
                       (None, started @ [Log ERROR ''Failed to retrieve search volume data''])
                   | InvalidBody \<Rightarrow>
                       (None, started @ [Log ERROR ''Failed to retrieve search volume data''])
                   | Body response_json \<Rightarrow>
                       (case status_code response_json of
                          Absent \<Rightarrow>
                            (None, started @ [Log ERROR ''Failed to retrieve search volume data''])
                        | Null \<Rightarrow>
                            (case status_message response_json of
                               Absent \<Rightarrow>
                                 (None, started
                                    @ [Log ERROR ''Failed to retrieve search volume data''])
                             | _ \<Rightarrow> (None, started @ [Log ERROR ''DataForSEO API Error'']))
                        | Present code \<Rightarrow>
                            (if code = 20000
                             then (Some response_json,
                                   started @ [Log INFO ''Search volume data retrieved successfully''])
                             else (case status_message response_json of
                                     Absent \<Rightarrow>
                                       (None, started
                                          @ [Log ERROR ''Failed to retrieve search volume data''])
                                   | _ \<Rightarrow>
                                       (None, started @ [Log ERROR ''DataForSEO API Error''])))))))"

section \<open>Insight generator\<close>

text \<open>\<^verbatim>\<open>str.strip()\<close>: the characters it removes at both ends. A \<^typ>\<open>char\<close> is a code
  point below 256, and these are the code points below 256 that Python counts as white
  space.\<close>

definition is_space :: "char \<Rightarrow> bool" where
  "is_space c = (c \<in> set [CHR 0x09, CHR 0x0A, CHR 0x0B, CHR 0x0C, CHR 0x0D,
                          CHR 0x1C, CHR 0x1D, CHR 0x1E, CHR 0x1F, CHR 0x20,
                          CHR 0x85, CHR 0xA0])"

definition strip :: "string \<Rightarrow> string" where
  "strip s = rev (dropWhile is_space (rev (dropWhile is_space s)))"

text \<open>The cleanup at the head of \<^verbatim>\<open>_parse_ai_response\<close>: the text handed to
  \<^verbatim>\<open>json.loads\<close>.\<close>

definition clean_response :: "string \<Rightarrow> string" where
  "clean_response ai_response =
     (let clean_response = strip ai_response;
          clean_response =
            (if take 7 clean_response = ''```json'' then drop 7 clean_response
             else clean_response);
          clean_response =
            (if 3 \<le> length clean_response
                \<and> drop (length clean_response - 3) clean_response = ''```''
             then take (length clean_response - 3) clean_response
             else clean_response)
      in strip clean_response)"

text \<open>The record returned when the answer does not parse.\<close>

definition fallback_analysis :: json where
  "fallback_analysis =
     JObj [(''Name'', JStr ''Unknown''),
           (''Description'', JStr ''Analysis parsing failed''),
           (''Niche'', JStr ''Unknown''),
           (''Keywords'', JArr [])]"

text \<open>\<^verbatim>\<open>_parse_ai_response\<close>: only \<^verbatim>\<open>JSONDecodeError\<close> is caught.\<close>

definition parse_ai_response ::
  "(string \<Rightarrow> py_error + json) \<Rightarrow> string \<Rightarrow> (py_error + json) \<times> event list" where
  "parse_ai_response loads ai_response =
     (case loads (clean_response ai_response) of
        Inr parsed \<Rightarrow> (Inr parsed, [])
      | Inl e \<Rightarrow>
          (if e = JSONDecodeError
           then (Inr fallback_analysis, [Log ERROR ''Failed to parse AI response as JSON''])
           else (Inl e, [])))"

text \<open>\<^verbatim>\<open>_generate_ai_insights\<close>: a failure of the call or of the parser is logged and
  raised again.\<close>

definition generate_ai_insights :: "analyzer \<Rightarrow> string \<Rightarrow> (py_error + json) \<times> event list" where
  "generate_ai_insights self website_content =
     (case openai_create self website_content of
        Inl e \<Rightarrow> (Inl e, [OpenAIRequest website_content, Log ERROR ''AI analysis failed''])
      | Inr ai_response \<Rightarrow>
          (let (outcome, parse_events) = parse_ai_response (json_loads self) ai_response;
               events =
                 [OpenAIRequest website_content, Log INFO ''AI analysis completed successfully'']
                 @ parse_events
           in case outcome of
                Inl e \<Rightarrow> (Inl e, events @ [Log ERROR ''AI analysis failed''])
              | Inr parsed \<Rightarrow> (Inr parsed, events)))"

section \<open>Orchestrator\<close>

text \<open>The dictionaries the pipeline returns: the minimal result without keywords, the
  basic result without search-volume data, and the enhanced result.\<close>

datatype analysis_result =
  MinimalResult json "enriched_keyword list" "enriched_keyword list"
| BasicResult json json bool
| EnhancedResult json "enriched_keyword list" "enriched_keyword list" summary_metrics bool

text \<open>
  \<^verbatim>\<open>_display_professional_report\<close> prints the report and returns nothing. It calls
  \<^verbatim>\<open>upper()\<close> on every record's keyword, which raises when the keyword is \<^verbatim>\<open>None\<close>.
  The overview reads \<^verbatim>\<open>ai_analysis\<close> with \<^verbatim>\<open>get\<close>, as line 318 of the pipeline has done
  before the report is reached.
\<close>

definition display_professional_report :: "json \<Rightarrow> enriched_keyword list \<Rightarrow> py_error + unit" where
  "display_professional_report ai_analysis enriched_keywords =
     (if None \<in> set (map keyword enriched_keywords) then Inl AttributeError else Inr ())"

text \<open>\<^verbatim>\<open>_create_enhanced_analysis\<close>\<close>

definition create_enhanced_analysis ::
  "analyzer \<Rightarrow> json \<Rightarrow> json \<Rightarrow> (py_error + analysis_result) \<times> event list" where
  "create_enhanced_analysis self ai_analysis keywords =
     (let (search_volume_data, events) =
            fetch_search_volume_data (dataforseo_client self) keywords;
          unavailable =
            (Inr (BasicResult ai_analysis keywords False),
             events @ [Log WARNING ''Search volume data unavailable''])
      in case search_volume_data of
           None \<Rightarrow> unavailable
         | Some data \<Rightarrow>
             (case tasks data of
                Absent \<Rightarrow> (Inl KeyError, events)
              | Null \<Rightarrow> (Inl TypeError, events)
              | Present [] \<Rightarrow> (Inl IndexError, events)
              | Present (first_task # _) \<Rightarrow>
                  (case result first_task of
                     Absent \<Rightarrow> (Inl KeyError, events)
                   | Null \<Rightarrow> unavailable
                   | Present [] \<Rightarrow> unavailable
                   | Present keyword_results \<Rightarrow>
                       (let enriched_keywords = map format_keyword_analytics keyword_results;
                            enriched_keywords = sort_reverse opportunity_score enriched_keywords
                        in case display_professional_report ai_analysis enriched_keywords of
                             Inl e \<Rightarrow> (Inl e, events)
                           | Inr _ \<Rightarrow>
                               (Inr (EnhancedResult ai_analysis enriched_keywords
                                       (take 5 enriched_keywords)
                                       (calculate_summary_metrics enriched_keywords) True),
                                events)))))"

text \<open>The keyword list the pipeline reads from the insight:
  \<^verbatim>\<open>ai_analysis.get("Keywords", []) or ai_analysis.get("keywords", [])\<close>.\<close>

definition extract_keywords :: "json \<Rightarrow> py_error + json" where
  "extract_keywords ai_analysis =
     (case json_get ai_analysis ''Keywords'' (JArr []) of
        Inl e \<Rightarrow> Inl e
      | Inr upper \<Rightarrow>
          (if truthy upper then Inr upper else json_get ai_analysis ''keywords'' (JArr [])))"

text \<open>\<^verbatim>\<open>generate_comprehensive_analysis\<close>: every exception is logged and raised again.\<close>

definition generate_comprehensive_analysis ::
  "analyzer \<Rightarrow> string \<Rightarrow> (py_error + analysis_result) \<times> event list" where
  "generate_comprehensive_analysis self website_content =
     (let failed = (\<lambda>e events. (Inl e, events @ [Log ERROR ''Analysis generation failed'']))
      in case generate_ai_insights self website_content of
           (Inl e, events) \<Rightarrow> failed e events
         | (Inr ai_analysis, events) \<Rightarrow>
             (case extract_keywords ai_analysis of
                Inl e \<Rightarrow> failed e events
              | Inr keywords \<Rightarrow>
                  (if \<not> truthy keywords
                   then (Inr (MinimalResult ai_analysis [] []),
                         events @ [Log WARNING ''No keywords generated from AI analysis''])
                   else if dataforseo_client self \<noteq> None
                   then (case create_enhanced_analysis self ai_analysis keywords of
                           (Inl e, later) \<Rightarrow> failed e (events @ later)
                         | (Inr r, later) \<Rightarrow> (Inr r, events @ later))
                   else (Inr (BasicResult ai_analysis keywords False),
                         events @ [Log INFO ''Returning basic analysis - DataForSEO not configured'']))))"

text \<open>Reading a key of a returned dictionary; \<open>None\<close> when it has no such key.\<close>

fun enhanced_keywords :: "analysis_result \<Rightarrow> enriched_keyword list option" where
  "enhanced_keywords (MinimalResult ai ek rs) = Some ek"
| "enhanced_keywords _ = None"

fun recommendations :: "analysis_result \<Rightarrow> enriched_keyword list option" where
  "recommendations (MinimalResult ai ek rs) = Some rs"
| "recommendations _ = None"

fun enhanced_analysis :: "analysis_result \<Rightarrow> bool option" where
  "enhanced_analysis (MinimalResult ai ek rs) = None"
| "enhanced_analysis (BasicResult ai kws flag) = Some flag"
| "enhanced_analysis (EnhancedResult ai ek top5 sm flag) = Some flag"

fun enriched_keywords :: "analysis_result \<Rightarrow> enriched_keyword list option" where
  "enriched_keywords (EnhancedResult ai ek top5 sm flag) = Some ek"
| "enriched_keywords _ = None"


fun top_recommendations :: "analysis_result \<Rightarrow> enriched_keyword list option" where
  "top_recommendations (EnhancedResult ai ek top5 sm flag) = Some top5"
| "top_recommendations _ = None"

section \<open>Observing a run\<close>

text \<open>How often a run entered \<^verbatim>\<open>fetch_search_volume_data\<close>, and how many requests
  it posted to the provider.\<close>

fun is_fetch_call :: "event \<Rightarrow> bool" where
  "is_fetch_call (FetchSearchVolumeCall keywords) = True"
| "is_fetch_call _ = False"

fun is_provider_post :: "event \<Rightarrow> bool" where
  "is_provider_post (ProviderPost keywords) = True"
| "is_provider_post _ = False"

definition fetch_call_count :: "event list \<Rightarrow> nat" where
  "fetch_call_count trace = length (filter is_fetch_call trace)"

definition provider_post_count :: "event list \<Rightarrow> nat" where
  "provider_post_count trace = length (filter is_provider_post trace)"



section \<open>Concrete inputs\<close>

text \<open>The record of the specification's scenario; it has no \<^verbatim>\<open>competition\<close> key.\<close>

definition running_shoes :: keyword_data where
  "running_shoes =
     \<lparr> raw_keyword = Present ''running shoes'', raw_search_volume = Present 12000,
       raw_competition = Absent, raw_competition_index = Present 70,
       raw_cpc = Present (7 / 2) \<rparr>"

text \<open>A record at the top of both scales, and one whose competition index lies above
  the documented range.\<close>

definition crowded_keyword :: keyword_data where
  "crowded_keyword =
     \<lparr> raw_keyword = Present ''insurance'', raw_search_volume = Present 20000,
       raw_competition = Present ''HIGH'', raw_competition_index = Present 100,
       raw_cpc = Present 12 \<rparr>"

definition out_of_range_keyword :: keyword_data where
  "out_of_range_keyword =
     \<lparr> raw_keyword = Present ''odd'', raw_search_volume = Null,
       raw_competition = Null, raw_competition_index = Present 102,
       raw_cpc = Absent \<rparr>"

text \<open>Six provider records, two of them with the same opportunity score, the answer
  that carries them, and an analyzer whose collaborators give fixed answers.\<close>

definition trail_shoes :: keyword_data where
  "trail_shoes =
     \<lparr> raw_keyword = Present ''trail shoes'', raw_search_volume = Present 12000,
       raw_competition = Present ''MEDIUM'', raw_competition_index = Present 70,
       raw_cpc = Present 2 \<rparr>"

definition niche_keyword :: keyword_data where
  "niche_keyword =
     \<lparr> raw_keyword = Absent, raw_search_volume = Present 400,
       raw_competition = Present ''LOW'', raw_competition_index = Present 10,
       raw_cpc = Present (1 / 2) \<rparr>"

definition best_keyword :: keyword_data where
  "best_keyword =
     \<lparr> raw_keyword = Present ''shoes'', raw_search_volume = Present 10000,
       raw_competition = Present ''LOW'', raw_competition_index = Absent,
       raw_cpc = Present (5 / 4) \<rparr>"

definition sample_results :: "keyword_data list" where
  "sample_results =
     [running_shoes, crowded_keyword, trail_shoes, niche_keyword, out_of_range_keyword,
      best_keyword]"

definition sample_response :: response_json where
  "sample_response =
     \<lparr> status_code = Present 20000, status_message = Present ''Ok.'',
       tasks = Present [\<lparr> result = Present sample_results \<rparr>] \<rparr>"

definition sample_keywords :: json where
  "sample_keywords = JArr [JStr ''running shoes'', JStr ''insurance'', JStr ''trail shoes'']"

definition sample_insight :: json where
  "sample_insight =
     JObj [(''Name'', JStr ''Shoe Shop''), (''Description'', JStr ''Sells shoes.''),
           (''Niche'', JStr ''Retail''), (''Keywords'', sample_keywords)]"

definition sample_analyzer :: analyzer where
  "sample_analyzer =
     \<lparr> openai_create = (\<lambda>content. Inr ''{}''),
       json_loads =
         (\<lambda>text. if text = ''{}'' then Inr sample_insight else Inl JSONDecodeError),
       dataforseo_client = Some (\<lambda>keywords. Body sample_response) \<rparr>"

text \<open>Analyzers whose language model does not answer with JSON, whose provider rejects
  the request, and whose provider cannot be reached.\<close>

definition unparsed_analyzer :: analyzer where
  "unparsed_analyzer =
     \<lparr> openai_create = (\<lambda>content. Inr ''Sorry, I cannot help with that.''),
       json_loads =
         (\<lambda>text. if text = ''{}'' then Inr sample_insight else Inl JSONDecodeError),
       dataforseo_client = Some (\<lambda>keywords. Body sample_response) \<rparr>"

definition rejected_response :: response_json where
  "rejected_response =
     \<lparr> status_code = Present 40100, status_message = Present ''Not authorized.'',
       tasks = Null \<rparr>"

definition rejected_analyzer :: analyzer where
  "rejected_analyzer =
     \<lparr> openai_create = (\<lambda>content. Inr ''{}''),
       json_loads =
         (\<lambda>text. if text = ''{}'' then Inr sample_insight else Inl JSONDecodeError),
       dataforseo_client = Some (\<lambda>keywords. Body rejected_response) \<rparr>"

definition offline_analyzer :: analyzer where
  "offline_analyzer =
     \<lparr> openai_create = (\<lambda>content. Inr ''{}''),
       json_loads =
         (\<lambda>text. if text = ''{}'' then Inr sample_insight else Inl JSONDecodeError),
       dataforseo_client = Some (\<lambda>keywords. TransportFailure) \<rparr>"


text \<open>A provider record that carries only the three metrics.\<close>

definition provider_record :: "int \<Rightarrow> int \<Rightarrow> rat \<Rightarrow> keyword_data" where
  "provider_record volume index click_cost =
     \<lparr> raw_keyword = Absent, raw_search_volume = Present volume,
       raw_competition = Absent, raw_competition_index = Present index,
       raw_cpc = Present click_cost \<rparr>"






section \<open>The scoring rules in the words of the specification\<close>

text \<open>Base tier by competition index: at least 80 gives 85, at least 60 gives 65, at
  least 40 gives 45, anything else 25.\<close>

definition spec_base_tier :: "int \<Rightarrow> int" where
  "spec_base_tier ci =
     (if ci \<ge> 80 then 85
      else if 60 \<le> ci \<and> ci < 80 then 65
      else if 40 \<le> ci \<and> ci < 60 then 45
      else 25)"

text \<open>Volume adjustment: above 10000 gives 10, above 1000 and at most 10000 gives 5,
  anything else 0.\<close>

definition spec_volume_adjustment :: "int \<Rightarrow> int" where
  "spec_volume_adjustment sv =
     (if sv > 10000 then 10
      else if 1000 < sv \<and> sv \<le> 10000 then 5
      else 0)"

text \<open>The metrics of a provider record: an integer or a number, or absent and then
  treated as 0.\<close>

definition spec_search_volume :: "keyword_data \<Rightarrow> int" where
  "spec_search_volume kd = (case raw_search_volume kd of Present v \<Rightarrow> v | Null \<Rightarrow> 0 | Absent \<Rightarrow> 0)"

definition spec_competition_index :: "keyword_data \<Rightarrow> int" where
  "spec_competition_index kd =
     (case raw_competition_index kd of Present v \<Rightarrow> v | Null \<Rightarrow> 0 | Absent \<Rightarrow> 0)"

definition spec_cpc :: "keyword_data \<Rightarrow> rat" where
  "spec_cpc kd = (case raw_cpc kd of Present v \<Rightarrow> v | Null \<Rightarrow> 0 | Absent \<Rightarrow> 0)"

text \<open>Volume component: the minimum of 50 and a 200th of the search volume. Competition
  component: 50 minus half the competition index. Both in the arithmetic of
  floats.\<close>

definition spec_volume_component :: "int \<Rightarrow> rat" where
  "spec_volume_component sv = min 50 (true_div (of_int sv) 200)"

definition spec_competition_component :: "int \<Rightarrow> rat" where
  "spec_competition_component ci = float_sub 50 (true_div (of_int ci) 2)"

section \<open>Rounding\<close>

lemma round_half_even_of_int: "round_half_even (of_int n) = n"
  by (simp add: round_half_even_def)

lemma round_half_even_mono: "x \<le> y \<Longrightarrow> round_half_even x \<le> round_half_even y"
proof -
  assume xy: "x \<le> y"
  have fx: "of_int \<lfloor>x\<rfloor> \<le> x" "x < of_int \<lfloor>x\<rfloor> + 1"
    and fy: "of_int \<lfloor>y\<rfloor> \<le> y" "y < of_int \<lfloor>y\<rfloor> + 1"
    by linarith+
  have le: "\<lfloor>x\<rfloor> \<le> \<lfloor>y\<rfloor>" using xy by (rule floor_mono)
  show ?thesis
  proof (cases "\<lfloor>x\<rfloor> = \<lfloor>y\<rfloor>")
    case True
    then show ?thesis using xy by (auto simp: round_half_even_def Let_def)
  next
    case False
    then have "\<lfloor>x\<rfloor> + 1 \<le> \<lfloor>y\<rfloor>" using le by simp
    moreover have "round_half_even x \<le> \<lfloor>x\<rfloor> + 1"
      by (simp add: round_half_even_def Let_def)
    moreover have "\<lfloor>y\<rfloor> \<le> round_half_even y"
      by (simp add: round_half_even_def Let_def)
    ultimately show ?thesis by linarith
  qed
qed

lemma round_half_even_close: "\<bar>x - of_int (round_half_even x)\<bar> \<le> 1 / 2"
proof -
  have "of_int \<lfloor>x\<rfloor> \<le> x" "x < of_int \<lfloor>x\<rfloor> + 1" by linarith+
  then show ?thesis by (auto simp: round_half_even_def Let_def)
qed

lemma round_half_even_minus: "round_half_even (- x) = - round_half_even x"
proof (cases "x \<in> \<int>")
  case True
  then obtain n where "x = of_int n" by (auto elim: Ints_cases)
  then show ?thesis
    by (simp add: round_half_even_of_int flip: of_int_minus)
next
  case False
  have ne: "x \<noteq> of_int \<lfloor>x\<rfloor>" using False by (metis Ints_of_int)
  then have f: "\<lfloor>- x\<rfloor> = - \<lfloor>x\<rfloor> - 1"
    by (simp add: floor_minus ceiling_altdef)
  have "of_int \<lfloor>x\<rfloor> < x"
    using ne of_int_floor_le [of x] by (metis order_le_less)
  moreover have "x < of_int \<lfloor>x\<rfloor> + 1" by linarith
  ultimately have b: "of_int \<lfloor>x\<rfloor> < x" "x < of_int \<lfloor>x\<rfloor> + 1" .
  show ?thesis
    using b by (auto simp: round_half_even_def Let_def f)
qed


lemma bitlen_powi_bounds:
  fixes p :: int
  assumes "0 < p"
  shows "(2::rat) powi (bitlen p - 1) \<le> of_int p" and "of_int p < (2::rat) powi bitlen p"
proof -
  have b: "2 ^ nat (bitlen p - 1) \<le> p" "p < 2 ^ nat (bitlen p)"
    using bitlen_bounds [OF assms] by simp_all
  have g: "1 \<le> bitlen p" using assms by (simp add: bitlen_alt_def)
  have "(of_int (2 ^ nat (bitlen p - 1)) :: rat) \<le> of_int p"
    using b(1) by (simp only: of_int_le_iff)
  then show "(2::rat) powi (bitlen p - 1) \<le> of_int p"
    using g by (simp add: power_int_def)
  have "(of_int p :: rat) < of_int (2 ^ nat (bitlen p))"
    using b(2) by (simp only: of_int_less_iff)
  then show "of_int p < (2::rat) powi bitlen p"
    using g by (simp add: power_int_def)
qed

lemma binary_exponent_bounds:
  assumes "x \<noteq> 0"
  shows "2 powi binary_exponent x \<le> \<bar>x\<bar>" and "\<bar>x\<bar> < 2 powi (binary_exponent x + 1)"
proof -
  obtain p q where pq: "quotient_of \<bar>x\<bar> = (p, q)" by (cases "quotient_of \<bar>x\<bar>")
  have q: "0 < q" using pq by (rule quotient_of_denom_pos)
  have a: "\<bar>x\<bar> = of_int p / of_int q" using pq by (rule quotient_of_div)
  have "0 < \<bar>x\<bar>" using assms by simp
  then have p: "0 < p" using a q by (simp add: zero_less_divide_iff)
  define d where "d = bitlen p - bitlen q"
  have qr: "(0::rat) < of_int q" using q by simp
  have "\<bar>x\<bar> < 2 powi bitlen p / 2 powi (bitlen q - 1)"
  proof -
    have "of_int p / of_int q < (2::rat) powi bitlen p / of_int q"
      using bitlen_powi_bounds(2) [OF p] qr by (rule divide_strict_right_mono)
    also have "\<dots> \<le> 2 powi bitlen p / 2 powi (bitlen q - 1)"
      using bitlen_powi_bounds(1) [OF q] by (intro frac_le) simp_all
    finally show ?thesis using a by simp
  qed
  then have up: "\<bar>x\<bar> < 2 powi (d + 1)"
    by (simp add: d_def power_int_diff [symmetric] algebra_simps)
  have "2 powi (bitlen p - 1) / 2 powi bitlen q \<le> \<bar>x\<bar>"
  proof -
    have "(2::rat) powi (bitlen p - 1) / 2 powi bitlen q \<le> 2 powi (bitlen p - 1) / of_int q"
      using bitlen_powi_bounds(2) [OF q] qr by (intro frac_le) simp_all
    also have "\<dots> \<le> of_int p / of_int q"
      using bitlen_powi_bounds(1) [OF p] qr by (intro divide_right_mono) simp_all
    finally show ?thesis using a by simp
  qed
  then have lo: "2 powi (d - 1) \<le> \<bar>x\<bar>"
    by (simp add: d_def power_int_diff [symmetric] algebra_simps)
  have e: "binary_exponent x = (if 2 powi d \<le> \<bar>x\<bar> then d else d - 1)"
    by (simp add: binary_exponent_def pq d_def Let_def)
  show "2 powi binary_exponent x \<le> \<bar>x\<bar>" using lo by (simp add: e)
  show "\<bar>x\<bar> < 2 powi (binary_exponent x + 1)" using up by (auto simp: e)
qed


lemma powi_split:
  assumes "b \<le> a"
  shows "(2::rat) powi a = of_int (2 ^ nat (a - b)) * 2 powi b"
proof -
  have "(2::rat) powi a = 2 powi ((a - b) + b)" by simp
  also have "\<dots> = 2 powi (a - b) * 2 powi b" by (rule power_int_add) simp
  also have "(2::rat) powi (a - b) = of_int (2 ^ nat (a - b))"
    using assms by (simp add: power_int_def)
  finally show ?thesis .
qed

lemma scaled_round_le:
  assumes "0 < U" and "x \<le> of_int K * U"
  shows "of_int (round_half_even (x / U)) * U \<le> of_int K * U"
proof -
  have "x / U \<le> of_int K" using assms by (simp add: pos_divide_le_eq)
  then have "round_half_even (x / U) \<le> round_half_even (of_int K)"
    by (rule round_half_even_mono)
  then have "round_half_even (x / U) \<le> K" by (simp add: round_half_even_of_int)
  then have "(of_int (round_half_even (x / U)) :: rat) \<le> of_int K" by (simp only: of_int_le_iff)
  then show ?thesis using assms(1) by (simp add: mult_right_mono)
qed

lemma scaled_round_ge:
  assumes "0 < U" and "of_int K * U \<le> x"
  shows "of_int K * U \<le> of_int (round_half_even (x / U)) * U"
proof -
  have "of_int K \<le> x / U" using assms by (simp add: pos_le_divide_eq)
  then have "round_half_even (of_int K) \<le> round_half_even (x / U)"
    by (rule round_half_even_mono)
  then have "K \<le> round_half_even (x / U)" by (simp add: round_half_even_of_int)
  then have "(of_int K :: rat) \<le> of_int (round_half_even (x / U))" by (simp only: of_int_le_iff)
  then show ?thesis using assms(1) by (simp add: mult_right_mono)
qed

lemma nearest_double_zero: "nearest_double 0 = 0"
  by (simp add: nearest_double_def round_half_even_def)

lemma nearest_double_minus: "nearest_double (- x) = - nearest_double x"
proof -
  have "binary_exponent (- x) = binary_exponent x" by (simp add: binary_exponent_def)
  then have "ulp_exponent (- x) = ulp_exponent x" by (simp add: ulp_exponent_def)
  then show ?thesis by (simp add: nearest_double_def round_half_even_minus)
qed

lemma nearest_double_nonneg:
  assumes "0 \<le> x"
  shows "0 \<le> nearest_double x"
proof -
  have "of_int 0 * 2 powi ulp_exponent x \<le> x" using assms by simp
  then have "of_int 0 * 2 powi ulp_exponent x \<le> nearest_double x"
    unfolding nearest_double_def by (intro scaled_round_ge) simp_all
  then show ?thesis by simp
qed

lemma nearest_double_lower:
  assumes "0 < y" and "ulp_exponent y \<le> binary_exponent y"
  shows "2 powi binary_exponent y \<le> nearest_double y"
proof -
  have "2 powi binary_exponent y \<le> y"
    using binary_exponent_bounds(1) [of y] assms(1) by simp
  then have "of_int (2 ^ nat (binary_exponent y - ulp_exponent y)) * 2 powi ulp_exponent y \<le> y"
    using powi_split [OF assms(2)] by simp
  then have "of_int (2 ^ nat (binary_exponent y - ulp_exponent y)) * 2 powi ulp_exponent y
               \<le> nearest_double y"
    unfolding nearest_double_def by (intro scaled_round_ge) simp_all
  then show ?thesis using powi_split [OF assms(2)] by simp
qed

lemma nearest_double_upper:
  assumes "0 < x"
  shows "nearest_double x \<le> 2 powi max (binary_exponent x + 1) (ulp_exponent x)"
proof (cases "ulp_exponent x \<le> binary_exponent x + 1")
  case True
  have "x \<le> 2 powi (binary_exponent x + 1)"
    using binary_exponent_bounds(2) [of x] assms by simp
  then have "x \<le> of_int (2 ^ nat (binary_exponent x + 1 - ulp_exponent x))
                   * 2 powi ulp_exponent x"
    using powi_split [OF True] by simp
  then have "nearest_double x \<le> of_int (2 ^ nat (binary_exponent x + 1 - ulp_exponent x))
                   * 2 powi ulp_exponent x"
    unfolding nearest_double_def by (intro scaled_round_le) simp_all
  then have "nearest_double x \<le> 2 powi (binary_exponent x + 1)"
    using powi_split [OF True] by simp
  then show ?thesis using True by (simp add: max_def)
next
  case False
  have "x \<le> 2 powi (binary_exponent x + 1)"
    using binary_exponent_bounds(2) [of x] assms by simp
  also have "\<dots> \<le> 2 powi ulp_exponent x"
    using False by (intro power_int_increasing) simp_all
  finally have "x \<le> of_int 1 * 2 powi ulp_exponent x" by simp
  then have "nearest_double x \<le> of_int 1 * 2 powi ulp_exponent x"
    unfolding nearest_double_def by (intro scaled_round_le) simp_all
  then show ?thesis using False by (simp add: max_def)
qed

lemma binary_exponent_mono:
  assumes "0 < x" and "x \<le> y"
  shows "binary_exponent x \<le> binary_exponent y"
proof (rule ccontr)
  assume "\<not> binary_exponent x \<le> binary_exponent y"
  then have "binary_exponent y + 1 \<le> binary_exponent x" by simp
  then have "(2::rat) powi (binary_exponent y + 1) \<le> 2 powi binary_exponent x"
    by (intro power_int_increasing) simp_all
  moreover have "2 powi binary_exponent x \<le> x"
    using binary_exponent_bounds(1) [of x] assms(1) by simp
  moreover have "y < 2 powi (binary_exponent y + 1)"
    using binary_exponent_bounds(2) [of y] assms by simp
  ultimately show False using assms(2) by linarith
qed

lemma nearest_double_mono_pos:
  assumes "0 < x" and "x \<le> y"
  shows "nearest_double x \<le> nearest_double y"
proof -
  have y: "0 < y" using assms by simp
  have e: "binary_exponent x \<le> binary_exponent y" using assms by (rule binary_exponent_mono)
  then have u: "ulp_exponent x \<le> ulp_exponent y" by (simp add: ulp_exponent_def)
  show ?thesis
  proof (cases "ulp_exponent x = ulp_exponent y")
    case True
    have "x / 2 powi ulp_exponent y \<le> y / 2 powi ulp_exponent y"
      using assms(2) by (simp add: divide_right_mono)
    then have "round_half_even (x / 2 powi ulp_exponent y)
                 \<le> round_half_even (y / 2 powi ulp_exponent y)"
      by (rule round_half_even_mono)
    then have "(of_int (round_half_even (x / 2 powi ulp_exponent y)) :: rat)
                 \<le> of_int (round_half_even (y / 2 powi ulp_exponent y))"
      by (simp only: of_int_le_iff)
    then show ?thesis
      by (simp add: nearest_double_def True mult_right_mono)
  next
    case False
    then have lt: "ulp_exponent x < ulp_exponent y" using u by simp
    then have uy: "ulp_exponent y = binary_exponent y - 52"
      by (auto simp: ulp_exponent_def max_def split: if_splits)
    have ee: "binary_exponent x + 1 \<le> binary_exponent y"
      using lt by (auto simp: ulp_exponent_def max_def split: if_splits)
    have "nearest_double x \<le> 2 powi max (binary_exponent x + 1) (ulp_exponent x)"
      using assms(1) by (rule nearest_double_upper)
    also have "\<dots> \<le> 2 powi binary_exponent y"
      using ee lt uy by (intro power_int_increasing) simp_all
    also have "\<dots> \<le> nearest_double y"
      using y uy by (intro nearest_double_lower) simp_all
    finally show ?thesis .
  qed
qed

lemma nearest_double_mono:
  assumes "x \<le> y"
  shows "nearest_double x \<le> nearest_double y"
proof -
  consider "0 < x" | "x \<le> 0" "0 \<le> y" | "y < 0" by linarith
  then show ?thesis
  proof cases
    case 1
    then show ?thesis using assms by (rule nearest_double_mono_pos)
  next
    case 2
    have "0 \<le> nearest_double (- x)" using 2(1) by (intro nearest_double_nonneg) simp
    then have "nearest_double x \<le> 0" by (simp add: nearest_double_minus)
    moreover have "0 \<le> nearest_double y" using 2(2) by (rule nearest_double_nonneg)
    ultimately show ?thesis by simp
  next
    case 3
    have "nearest_double (- y) \<le> nearest_double (- x)"
      using 3 assms by (intro nearest_double_mono_pos) simp_all
    then show ?thesis by (simp add: nearest_double_minus)
  qed
qed

lemma round_half_even_tenths:
  "\<exists>k. py_round x 1 = nearest_double (of_int k / 10) \<and> \<bar>10 * x - of_int k\<bar> \<le> 1 / 2"
proof -
  have "\<bar>x * 10 - of_int (round_half_even (x * 10))\<bar> \<le> 1 / 2"
    by (rule round_half_even_close)
  then have "\<bar>10 * x - of_int (round_half_even (x * 10))\<bar> \<le> 1 / 2"
    by (simp add: mult.commute)
  moreover have "py_round x 1 = nearest_double (of_int (round_half_even (x * 10)) / 10)"
    by (simp add: py_round_def)
  ultimately show ?thesis by blast
qed


section \<open>Difficulty score\<close>

text \<open>
  Claim C1. For every keyword record of the provider, with an absent metric counted as
  0, the difficulty score of the enriched record is the minimum of 100 and the sum of
  the base tier of the record's competition index and the volume adjustment of its
  search volume; the enriched record carries that competition index and that search
  volume.
\<close>

theorem difficulty_score_formula:
  "difficulty_score (format_keyword_analytics kd) =
     min 100 (spec_base_tier (spec_competition_index kd)
              + spec_volume_adjustment (spec_search_volume kd))
   \<and> competition_index (format_keyword_analytics kd) = spec_competition_index kd
   \<and> search_volume (format_keyword_analytics kd) = spec_search_volume kd"
  by (simp add: format_keyword_analytics_def calculate_difficulty_score_def
      spec_base_tier_def spec_volume_adjustment_def spec_competition_index_def
      spec_search_volume_def get_or_zero_def Let_def split: field.splits)

theorem difficulty_score_formula_witness:
  "difficulty_score (format_keyword_analytics (provider_record 10001 80 0)) = 95
   \<and> difficulty_score (format_keyword_analytics (provider_record 10000 79 0)) = 70
   \<and> difficulty_score (format_keyword_analytics (provider_record 1001 60 0)) = 70
   \<and> difficulty_score (format_keyword_analytics (provider_record 1000 59 0)) = 45
   \<and> difficulty_score (format_keyword_analytics (provider_record 0 40 0)) = 45
   \<and> difficulty_score (format_keyword_analytics (provider_record 0 39 0)) = 25
   \<and> difficulty_score (format_keyword_analytics out_of_range_keyword) = 85"
proof -
  have r: "spec_competition_index (provider_record v c p) = c"
          "spec_search_volume (provider_record v c p) = v" for v c p
    by (simp_all add: spec_competition_index_def spec_search_volume_def provider_record_def)
  have o: "spec_competition_index out_of_range_keyword = 102"
          "spec_search_volume out_of_range_keyword = 0"
    by (simp_all add: spec_competition_index_def spec_search_volume_def
        out_of_range_keyword_def)
  show ?thesis
    using difficulty_score_formula [of "provider_record 10001 80 0"]
      difficulty_score_formula [of "provider_record 10000 79 0"]
      difficulty_score_formula [of "provider_record 1001 60 0"]
      difficulty_score_formula [of "provider_record 1000 59 0"]
      difficulty_score_formula [of "provider_record 0 40 0"]
      difficulty_score_formula [of "provider_record 0 39 0"]
      difficulty_score_formula [of out_of_range_keyword]
    by (simp add: r o spec_base_tier_def spec_volume_adjustment_def)
qed

text \<open>
  Claim C10. When the competition index lies between 0 and 100 and the search volume is
  not negative, the difficulty score lies between 25 and 95: the base tier is at most 85,
  the volume adjustment at most 10, so the score is their sum and the clamp to 100 leaves
  it unchanged.
\<close>

theorem difficulty_score_range:
  assumes "0 \<le> competition_index (format_keyword_analytics kd)"
    and "competition_index (format_keyword_analytics kd) \<le> 100"
    and "0 \<le> search_volume (format_keyword_analytics kd)"
  shows "25 \<le> difficulty_score (format_keyword_analytics kd)
       \<and> difficulty_score (format_keyword_analytics kd) \<le> 95
       \<and> spec_base_tier (competition_index (format_keyword_analytics kd)) \<le> 85
       \<and> spec_volume_adjustment (search_volume (format_keyword_analytics kd)) \<le> 10
       \<and> difficulty_score (format_keyword_analytics kd) =
           spec_base_tier (competition_index (format_keyword_analytics kd))
           + spec_volume_adjustment (search_volume (format_keyword_analytics kd))"
  by (simp add: format_keyword_analytics_def calculate_difficulty_score_def
      spec_base_tier_def spec_volume_adjustment_def Let_def)

theorem difficulty_score_range_witness:
  "0 \<le> competition_index (format_keyword_analytics crowded_keyword)
   \<and> competition_index (format_keyword_analytics crowded_keyword) \<le> 100
   \<and> 0 \<le> search_volume (format_keyword_analytics crowded_keyword)
   \<and> difficulty_score (format_keyword_analytics crowded_keyword) = 95
   \<and> spec_base_tier (competition_index (format_keyword_analytics crowded_keyword)) = 85
   \<and> spec_volume_adjustment (search_volume (format_keyword_analytics crowded_keyword)) = 10"
proof -
  have c: "competition_index (format_keyword_analytics crowded_keyword) = 100"
    and v: "search_volume (format_keyword_analytics crowded_keyword) = 20000"
    by (simp_all add: crowded_keyword_def format_keyword_analytics_def get_or_zero_def)
  have b: "spec_base_tier 100 = 85" and a: "spec_volume_adjustment 20000 = 10"
    by (simp_all add: spec_base_tier_def spec_volume_adjustment_def)
  have "difficulty_score (format_keyword_analytics crowded_keyword) =
          spec_base_tier (competition_index (format_keyword_analytics crowded_keyword))
          + spec_volume_adjustment (search_volume (format_keyword_analytics crowded_keyword))"
    using difficulty_score_range [of crowded_keyword] c v by simp
  then show ?thesis using c v a b by simp
qed

section \<open>Opportunity score\<close>

lemma half_doubles:
  "nearest_double (101 / 2) = 101 / 2" "nearest_double (- (1 / 2)) = - (1 / 2)"
  by code_simp+

lemma competition_component_negative:
  assumes "100 < ci"
  shows "spec_competition_component ci \<le> - (1 / 2)"
proof -
  have "(101 / 2 :: rat) \<le> of_int ci / 2" using assms by simp
  then have "nearest_double (101 / 2) \<le> nearest_double (of_int ci / 2)"
    by (rule nearest_double_mono)
  then have "50 - nearest_double (of_int ci / 2) \<le> - (1 / 2)"
    by (simp add: half_doubles)
  then have "nearest_double (50 - nearest_double (of_int ci / 2)) \<le> nearest_double (- (1 / 2))"
    by (rule nearest_double_mono)
  then show ?thesis
    by (simp add: spec_competition_component_def float_sub_def true_div_def half_doubles)
qed

lemma py_round_negative:
  assumes "x \<le> - (1 / 2)"
  shows "py_round x 1 \<le> - (1 / 2)"
proof -
  have "x * 10 \<le> of_int (- 5)" using assms by simp
  then have "round_half_even (x * 10) \<le> round_half_even (of_int (- 5))"
    by (rule round_half_even_mono)
  then have "round_half_even (x * 10) \<le> - 5"
    by (simp only: round_half_even_of_int)
  then have "(of_int (round_half_even (x * 10)) :: rat) \<le> of_int (- 5)"
    by (simp only: of_int_le_iff)
  then have "(of_int (round_half_even (x * 10)) :: rat) / 10 \<le> - (1 / 2)" by simp
  then have "nearest_double (of_int (round_half_even (x * 10)) / 10)
               \<le> nearest_double (- (1 / 2))"
    by (rule nearest_double_mono)
  then show ?thesis by (simp add: py_round_def half_doubles)
qed

text \<open>
  Claim C2. For every keyword record of the provider, with an absent metric counted as
  0, the opportunity score of the enriched record is the sum of the volume component,
  the minimum of 50 and a 200th of the search volume, and the competition component, 50
  minus half the competition index, rounded to one decimal: it is the double of a
  number of tenths that lies within half a tenth of the sum. The competition component
  has no lower clamp: it is negative as soon as the competition index exceeds 100, and
  with a search volume of zero the score itself is then negative.
\<close>

theorem opportunity_score_formula:
  "opportunity_score (format_keyword_analytics kd) =
     py_round (float_add (spec_volume_component (spec_search_volume kd))
                         (spec_competition_component (spec_competition_index kd))) 1
   \<and> (\<exists>k. opportunity_score (format_keyword_analytics kd) = nearest_double (of_int k / 10)
          \<and> \<bar>10 * float_add (spec_volume_component (spec_search_volume kd))
                             (spec_competition_component (spec_competition_index kd))
              - of_int k\<bar> \<le> 1 / 2)
   \<and> (100 < spec_competition_index kd \<longrightarrow>
        spec_competition_component (spec_competition_index kd) < 0)
   \<and> (100 < spec_competition_index kd \<and> spec_search_volume kd = 0 \<longrightarrow>
        opportunity_score (format_keyword_analytics kd) < 0)"
proof -
  let ?total = "float_add (spec_volume_component (spec_search_volume kd))
                          (spec_competition_component (spec_competition_index kd))"
  have f: "opportunity_score (format_keyword_analytics kd) = py_round ?total 1"
    by (simp add: format_keyword_analytics_def calculate_opportunity_score_def
        spec_volume_component_def spec_competition_component_def
        spec_competition_index_def spec_search_volume_def get_or_zero_def Let_def
        split: field.splits)
  have r: "\<exists>k. opportunity_score (format_keyword_analytics kd) = nearest_double (of_int k / 10)
          \<and> \<bar>10 * ?total - of_int k\<bar> \<le> 1 / 2"
    unfolding f by (rule round_half_even_tenths)
  have n: "spec_competition_component (spec_competition_index kd) < 0"
    if "100 < spec_competition_index kd"
    using competition_component_negative [OF that] by simp
  have z: "opportunity_score (format_keyword_analytics kd) < 0"
    if c: "100 < spec_competition_index kd" and v: "spec_search_volume kd = 0"
  proof -
    have "spec_volume_component 0 = 0"
      by (simp add: spec_volume_component_def true_div_def nearest_double_zero)
    then have "?total = nearest_double (spec_competition_component (spec_competition_index kd))"
      using v by (simp add: float_add_def)
    also have "\<dots> \<le> nearest_double (- (1 / 2))"
      using competition_component_negative [OF c] by (rule nearest_double_mono)
    finally have "?total \<le> - (1 / 2)" by (simp add: half_doubles)
    then have "py_round ?total 1 \<le> - (1 / 2)" by (rule py_round_negative)
    then show ?thesis using f by simp
  qed
  show ?thesis using f r n z by blast
qed

theorem opportunity_score_formula_witness:
  "opportunity_score (format_keyword_analytics (provider_record 30 0 0))
     = nearest_double (501 / 10)
   \<and> opportunity_score (format_keyword_analytics (provider_record 30 0 0)) < 251 / 5
   \<and> opportunity_score (format_keyword_analytics (provider_record 90 0 0)) = 101 / 2
   \<and> opportunity_score (format_keyword_analytics (provider_record 10000 0 0)) = 100
   \<and> opportunity_score (format_keyword_analytics (provider_record 0 100 0)) = 0
   \<and> 100 < spec_competition_index out_of_range_keyword
   \<and> spec_search_volume out_of_range_keyword = 0
   \<and> opportunity_score (format_keyword_analytics out_of_range_keyword) < 0
   \<and> opportunity_score (format_keyword_analytics out_of_range_keyword) = - 1"
proof -
  have r: "spec_competition_index (provider_record v c p) = c"
          "spec_search_volume (provider_record v c p) = v" for v c p
    by (simp_all add: spec_competition_index_def spec_search_volume_def provider_record_def)
  have o: "spec_competition_index out_of_range_keyword = 102"
          "spec_search_volume out_of_range_keyword = 0"
    by (simp_all add: spec_competition_index_def spec_search_volume_def
        out_of_range_keyword_def)
  have a: "py_round (float_add (spec_volume_component 30) (spec_competition_component 0)) 1
             = nearest_double (501 / 10)"
    by code_simp
  have a': "nearest_double (501 / 10) < 251 / 5" by code_simp
  have b: "py_round (float_add (spec_volume_component 90) (spec_competition_component 0)) 1
             = 101 / 2"
    by code_simp
  have c: "py_round (float_add (spec_volume_component 10000) (spec_competition_component 0)) 1
             = 100"
    by code_simp
  have d: "py_round (float_add (spec_volume_component 0) (spec_competition_component 100)) 1
             = 0"
    by code_simp
  have e: "py_round (float_add (spec_volume_component 0) (spec_competition_component 102)) 1
             = - 1"
    by code_simp
  note t = opportunity_score_formula [THEN conjunct1]
  have "opportunity_score (format_keyword_analytics (provider_record 30 0 0))
          = nearest_double (501 / 10)"
    using t [of "provider_record 30 0 0"] by (simp only: r a)
  moreover have "opportunity_score (format_keyword_analytics (provider_record 90 0 0))
                   = 101 / 2"
    using t [of "provider_record 90 0 0"] by (simp only: r b)
  moreover have "opportunity_score (format_keyword_analytics (provider_record 10000 0 0))
                   = 100"
    using t [of "provider_record 10000 0 0"] by (simp only: r c)
  moreover have "opportunity_score (format_keyword_analytics (provider_record 0 100 0)) = 0"
    using t [of "provider_record 0 100 0"] by (simp only: r d)
  moreover have "opportunity_score (format_keyword_analytics out_of_range_keyword) = - 1"
    using t [of out_of_range_keyword] by (simp only: o e)
  moreover have "opportunity_score (format_keyword_analytics out_of_range_keyword) < 0"
    using opportunity_score_formula [of out_of_range_keyword] o by simp
  ultimately show ?thesis using a' o by simp
qed

section \<open>Insights\<close>

text \<open>
  Claim C3. For every keyword record of the provider, with an absent metric counted as
  0, the insights of the enriched record are exactly three strings in this order: the
  traffic insight, chosen by the record's search volume above 5000, above 1000, or
  neither; the competition insight, chosen by its competition index below 50, below 80,
  or neither; the commercial-value insight, chosen by its cost per click above 5, above
  1, or neither.
\<close>

theorem seo_insights_tiers:
  "seo_insights (format_keyword_analytics kd) =
     [ if spec_search_volume kd > 5000
         then ''High search volume - excellent traffic potential''
       else if spec_search_volume kd > 1000
         then ''Good search volume - solid traffic opportunity''
       else ''Low search volume - niche targeting opportunity'',
       if spec_competition_index kd < 50
         then ''Low competition - favorable ranking conditions''
       else if spec_competition_index kd < 80
         then ''Medium competition - moderate SEO effort required''
       else ''High competition - intensive SEO strategy needed'',
       if spec_cpc kd > 5
         then ''High commercial value - strong monetization potential''
       else if spec_cpc kd > 1
         then ''Medium commercial value - decent revenue opportunity''
       else ''Low commercial value - primarily informational intent'' ]
   \<and> length (seo_insights (format_keyword_analytics kd)) = 3
   \<and> cpc (format_keyword_analytics kd) = spec_cpc kd"
  by (simp add: format_keyword_analytics_def generate_seo_insights_def Let_def
      spec_search_volume_def spec_competition_index_def spec_cpc_def get_or_zero_def
      split: field.splits)

theorem seo_insights_tiers_witness:
  "seo_insights (format_keyword_analytics (provider_record 5001 49 (11 / 2))) =
     [''High search volume - excellent traffic potential'',
      ''Low competition - favorable ranking conditions'',
      ''High commercial value - strong monetization potential'']
   \<and> seo_insights (format_keyword_analytics (provider_record 5000 50 5)) =
     [''Good search volume - solid traffic opportunity'',
      ''Medium competition - moderate SEO effort required'',
      ''Medium commercial value - decent revenue opportunity'']
   \<and> seo_insights (format_keyword_analytics (provider_record 1001 79 (3 / 2))) =
     [''Good search volume - solid traffic opportunity'',
      ''Medium competition - moderate SEO effort required'',
      ''Medium commercial value - decent revenue opportunity'']
   \<and> seo_insights (format_keyword_analytics (provider_record 1000 80 1)) =
     [''Low search volume - niche targeting opportunity'',
      ''High competition - intensive SEO strategy needed'',
      ''Low commercial value - primarily informational intent'']
   \<and> seo_insights (format_keyword_analytics out_of_range_keyword) =
     [''Low search volume - niche targeting opportunity'',
      ''High competition - intensive SEO strategy needed'',
      ''Low commercial value - primarily informational intent'']"
proof -
  have r: "spec_competition_index (provider_record v c p) = c"
          "spec_search_volume (provider_record v c p) = v"
          "spec_cpc (provider_record v c p) = p" for v c p
    by (simp_all add: spec_competition_index_def spec_search_volume_def spec_cpc_def
        provider_record_def)
  have o: "spec_competition_index out_of_range_keyword = 102"
          "spec_search_volume out_of_range_keyword = 0"
          "spec_cpc out_of_range_keyword = 0"
    by (simp_all add: spec_competition_index_def spec_search_volume_def spec_cpc_def
        out_of_range_keyword_def)
  show ?thesis
    using seo_insights_tiers [of "provider_record 5001 49 (11 / 2)"]
      seo_insights_tiers [of "provider_record 5000 50 5"]
      seo_insights_tiers [of "provider_record 1001 79 (3 / 2)"]
      seo_insights_tiers [of "provider_record 1000 80 1"]
      seo_insights_tiers [of out_of_range_keyword]
    by (simp add: r o)
qed

section \<open>The scenario of the specification\<close>

text \<open>
  Claim C4, as the code has it. The record for ``running shoes'' with search volume
  12000, competition index 70 and cost per click 3.5 is enriched with difficulty score
  75 and opportunity score 65.0; its search volume exceeds 5000, so the first insight is
  the one for high search volume, followed by the insights for medium competition and
  medium commercial value.
\<close>

theorem running_shoes_scenario:
  "difficulty_score (format_keyword_analytics running_shoes) = 75
   \<and> opportunity_score (format_keyword_analytics running_shoes) = 65
   \<and> seo_insights (format_keyword_analytics running_shoes) =
       [''High search volume - excellent traffic potential'',
        ''Medium competition - moderate SEO effort required'',
        ''Medium commercial value - decent revenue opportunity'']"
proof -
  have "opportunity_score (format_keyword_analytics running_shoes) = 65"
    by code_simp
  then show ?thesis
    by (simp add: running_shoes_def format_keyword_analytics_def
        calculate_difficulty_score_def generate_seo_insights_def get_or_zero_def Let_def)
qed

text \<open>The scenario as the specification words it, with the insight for good search
  volume in first place, does not hold.\<close>

theorem running_shoes_scenario_counterexample:
  "\<not> (difficulty_score (format_keyword_analytics running_shoes) = 75
   \<and> opportunity_score (format_keyword_analytics running_shoes) = 65
   \<and> seo_insights (format_keyword_analytics running_shoes) =
       [''Good search volume - solid traffic opportunity'',
        ''Medium competition - moderate SEO effort required'',
        ''Medium commercial value - decent revenue opportunity''])"
  by (simp add: running_shoes_def format_keyword_analytics_def generate_seo_insights_def
      get_or_zero_def Let_def)

section \<open>Ranking\<close>

lemma sort_reverse_sorted:
  "sorted_wrt (\<lambda>a b. key b \<le> key a) (sort_reverse key xs)"
proof -
  have "sorted (map key (sort_key key (rev xs)))" by (rule sorted_sort_key)
  then have "sorted_wrt (\<lambda>a b. key a \<le> key b) (sort_key key (rev xs))"
    by (simp add: sorted_wrt_map)
  then show ?thesis
    by (simp add: sort_reverse_def sorted_wrt_rev)
qed

lemma sort_reverse_mset: "mset (sort_reverse key xs) = mset xs"
  by (simp add: sort_reverse_def)

lemma sort_reverse_length: "length (sort_reverse key xs) = length xs"
  by (simp add: sort_reverse_def)

lemma sort_reverse_stable:
  "filter (\<lambda>x. key x = k) (sort_reverse key xs) = filter (\<lambda>x. key x = k) xs"
proof -
  have "filter (\<lambda>x. key x = k) (sort_reverse key xs)
        = rev (filter (\<lambda>x. key x = k) (sort_key key (rev xs)))"
    by (simp add: sort_reverse_def rev_filter)
  also have "\<dots> = rev (filter (\<lambda>x. key x = k) (rev xs))"
    by (simp only: sort_key_stable)
  also have "\<dots> = filter (\<lambda>x. key x = k) xs"
    by (simp add: rev_filter)
  finally show ?thesis .
qed

lemma fetch_success:
  assumes "py_len keywords = Inr n" and "post keywords = Body data"
    and "status_code data = Present 20000"
  shows "fst (fetch_search_volume_data (Some post) keywords) = Some data"
  using assms by (simp add: fetch_search_volume_data_def Let_def)

lemma create_enhanced_analysis_enhanced:
  assumes "dataforseo_client self = Some post"
    and "py_len keywords = Inr n" and "post keywords = Body data"
    and "status_code data = Present 20000"
    and "tasks data = Present (first_task # other_tasks)"
    and "result first_task = Present rs" and "rs \<noteq> []"
    and "Null \<notin> set (map raw_keyword rs)"
  shows "fst (create_enhanced_analysis self ai keywords) =
           Inr (EnhancedResult ai
                  (sort_reverse opportunity_score (map format_keyword_analytics rs))
                  (take 5 (sort_reverse opportunity_score (map format_keyword_analytics rs)))
                  (calculate_summary_metrics
                     (sort_reverse opportunity_score (map format_keyword_analytics rs)))
                  True)"
proof -
  let ?ek = "sort_reverse opportunity_score (map format_keyword_analytics rs)"
  have f: "fst (fetch_search_volume_data (Some post) keywords) = Some data"
    using assms(2-4) by (rule fetch_success)
  have "set ?ek = set (map format_keyword_analytics rs)"
    using sort_reverse_mset [of opportunity_score "map format_keyword_analytics rs"]
    by (metis set_mset_mset)
  moreover have "None \<notin> keyword ` set (map format_keyword_analytics rs)"
    using assms(8)
    by (auto simp: format_keyword_analytics_def get_default_def split: field.splits)
       (metis imageI)
  ultimately have d: "display_professional_report ai ?ek = Inr ()"
    by (simp add: display_professional_report_def)
  obtain a b cs where rs: "rs = a # cs" using assms(7) by (cases rs) auto
  show ?thesis
    using f d assms(1,5,6) rs
    by (simp add: create_enhanced_analysis_def Let_def split_beta)
qed


text \<open>The three collaborators of the concrete analyzer and the values of the six
  records.\<close>

lemmas sample_defs = running_shoes_def crowded_keyword_def trail_shoes_def niche_keyword_def
  out_of_range_keyword_def best_keyword_def

lemma sample_opportunity_scores:
  "opportunity_score (format_keyword_analytics running_shoes) = 65"
  "opportunity_score (format_keyword_analytics crowded_keyword) = 50"
  "opportunity_score (format_keyword_analytics trail_shoes) = 65"
  "opportunity_score (format_keyword_analytics niche_keyword) = 47"
  "opportunity_score (format_keyword_analytics out_of_range_keyword) = - 1"
  "opportunity_score (format_keyword_analytics best_keyword) = 100"
  by code_simp+

lemma sample_ranked:
  "sort_reverse opportunity_score (map format_keyword_analytics sample_results) =
     map format_keyword_analytics
       [best_keyword, running_shoes, trail_shoes, crowded_keyword, niche_keyword,
        out_of_range_keyword]"
  by (simp add: sample_results_def sort_reverse_def sort_key_def sample_opportunity_scores)







text \<open>
  Claim C5. For every list of provider records, the enriched list is the list of their
  enriched records sorted by opportunity score in descending order: it is descending, a
  rearrangement of the input, and stable, since the records with any one score appear
  in the order the provider sent them. The top recommendations are its first five
  elements, or all of them when there are fewer. When the provider answers with a
  non-empty list of records with keywords, the pipeline returns this list and these
  recommendations.
\<close>

theorem ranking_descending_stable_top5:
  "sorted_wrt (\<lambda>a b. opportunity_score b \<le> opportunity_score a)
     (sort_reverse opportunity_score (map format_keyword_analytics rs))
   \<and> mset (sort_reverse opportunity_score (map format_keyword_analytics rs))
       = mset (map format_keyword_analytics rs)
   \<and> (\<forall>s. filter (\<lambda>k. opportunity_score k = s)
              (sort_reverse opportunity_score (map format_keyword_analytics rs))
           = filter (\<lambda>k. opportunity_score k = s) (map format_keyword_analytics rs))
   \<and> take 5 (sort_reverse opportunity_score (map format_keyword_analytics rs))
       = take (min 5 (length rs))
           (sort_reverse opportunity_score (map format_keyword_analytics rs))
   \<and> length (take 5 (sort_reverse opportunity_score (map format_keyword_analytics rs)))
       = min 5 (length rs)
   \<and> (dataforseo_client self = Some post \<and> py_len keywords = Inr n
        \<and> post keywords = Body data \<and> status_code data = Present 20000
        \<and> tasks data = Present (first_task # other_tasks)
        \<and> result first_task = Present rs \<and> rs \<noteq> []
        \<and> Null \<notin> set (map raw_keyword rs) \<longrightarrow>
       (\<exists>r. fst (create_enhanced_analysis self ai keywords) = Inr r
            \<and> enriched_keywords r
                = Some (sort_reverse opportunity_score (map format_keyword_analytics rs))
            \<and> top_recommendations r
                = Some (take 5 (sort_reverse opportunity_score
                                  (map format_keyword_analytics rs)))))"
proof -
  let ?ranked = "sort_reverse opportunity_score (map format_keyword_analytics rs)"
  have l: "length ?ranked = length rs" by (simp add: sort_reverse_length)
  have "sorted_wrt (\<lambda>a b. opportunity_score b \<le> opportunity_score a) ?ranked"
    by (rule sort_reverse_sorted)
  moreover have "mset ?ranked = mset (map format_keyword_analytics rs)"
    by (rule sort_reverse_mset)
  moreover have "\<forall>s. filter (\<lambda>k. opportunity_score k = s) ?ranked
                   = filter (\<lambda>k. opportunity_score k = s) (map format_keyword_analytics rs)"
    by (simp add: sort_reverse_stable)
  moreover have "take 5 ?ranked = take (min 5 (length rs)) ?ranked"
    using l by (simp add: min_def)
  moreover have "length (take 5 ?ranked) = min 5 (length rs)"
    using l by simp
  moreover have "\<exists>r. fst (create_enhanced_analysis self ai keywords) = Inr r
            \<and> enriched_keywords r = Some ?ranked
            \<and> top_recommendations r = Some (take 5 ?ranked)"
    if "dataforseo_client self = Some post" "py_len keywords = Inr n"
       "post keywords = Body data" "status_code data = Present 20000"
       "tasks data = Present (first_task # other_tasks)"
       "result first_task = Present rs" "rs \<noteq> []"
       "Null \<notin> set (map raw_keyword rs)"
    using create_enhanced_analysis_enhanced [OF that, of ai] by simp
  ultimately show ?thesis by blast
qed

theorem ranking_descending_stable_top5_witness:
  "sort_reverse opportunity_score (map format_keyword_analytics sample_results) =
     map format_keyword_analytics
       [best_keyword, running_shoes, trail_shoes, crowded_keyword, niche_keyword,
        out_of_range_keyword]
   \<and> (\<exists>r. fst (create_enhanced_analysis sample_analyzer sample_insight sample_keywords)
             = Inr r
          \<and> top_recommendations r =
              Some (map format_keyword_analytics
                      [best_keyword, running_shoes, trail_shoes, crowded_keyword,
                       niche_keyword]))"
proof -
  have h: "dataforseo_client sample_analyzer = Some (\<lambda>keywords. Body sample_response)
        \<and> py_len sample_keywords = Inr 3
        \<and> (\<lambda>keywords. Body sample_response) sample_keywords = Body sample_response
        \<and> status_code sample_response = Present 20000
        \<and> tasks sample_response = Present (\<lparr> result = Present sample_results \<rparr> # [])
        \<and> result \<lparr> result = Present sample_results \<rparr> = Present sample_results
        \<and> sample_results \<noteq> []
        \<and> Null \<notin> set (map raw_keyword sample_results)"
    by (simp add: sample_analyzer_def sample_keywords_def sample_response_def
        sample_results_def sample_defs)
  have "\<exists>r. fst (create_enhanced_analysis sample_analyzer sample_insight sample_keywords)
               = Inr r
            \<and> top_recommendations r
                = Some (take 5 (sort_reverse opportunity_score
                                  (map format_keyword_analytics sample_results)))"
    using ranking_descending_stable_top5
      [of sample_results sample_analyzer "\<lambda>keywords. Body sample_response" sample_keywords 3
          sample_response "\<lparr> result = Present sample_results \<rparr>" "[]" sample_insight] h
    by blast
  then show ?thesis by (simp add: sample_ranked)
qed

section \<open>Summary metrics\<close>




section \<open>No keywords\<close>

lemma generate_ai_insights_no_fetch:
  "fetch_call_count (snd (generate_ai_insights self content)) = 0
   \<and> provider_post_count (snd (generate_ai_insights self content)) = 0"
  by (simp add: generate_ai_insights_def parse_ai_response_def fetch_call_count_def
      provider_post_count_def Let_def split: sum.splits)

text \<open>
  Claim C7. When the insight generator returns a record whose keyword list is empty, the
  pipeline returns the minimal result, whose enhanced keyword list and recommendations
  are both empty, without an exception; the run never enters the volume enricher and
  posts nothing to the provider.
\<close>

theorem no_keywords_minimal_result:
  "generate_ai_insights self content = (Inr ai, events)
   \<and> extract_keywords ai = Inr keywords \<and> \<not> truthy keywords \<longrightarrow>
   (\<exists>r trace. generate_comprehensive_analysis self content = (Inr r, trace)
      \<and> r = MinimalResult ai [] []
      \<and> enhanced_keywords r = Some [] \<and> recommendations r = Some []
      \<and> fetch_call_count trace = 0 \<and> provider_post_count trace = 0)"
proof
  assume a: "generate_ai_insights self content = (Inr ai, events)
   \<and> extract_keywords ai = Inr keywords \<and> \<not> truthy keywords"
  then have g: "generate_comprehensive_analysis self content =
      (Inr (MinimalResult ai [] []),
       events @ [Log WARNING ''No keywords generated from AI analysis''])"
    by (simp add: generate_comprehensive_analysis_def)
  have "fetch_call_count events = 0 \<and> provider_post_count events = 0"
    using generate_ai_insights_no_fetch [of self content] a by simp
  then have "fetch_call_count (events @ [Log WARNING ''No keywords generated from AI analysis'']) = 0
     \<and> provider_post_count (events @ [Log WARNING ''No keywords generated from AI analysis'']) = 0"
    by (simp add: fetch_call_count_def provider_post_count_def)
  with g show "\<exists>r trace. generate_comprehensive_analysis self content = (Inr r, trace)
      \<and> r = MinimalResult ai [] []
      \<and> enhanced_keywords r = Some [] \<and> recommendations r = Some []
      \<and> fetch_call_count trace = 0 \<and> provider_post_count trace = 0"
    by simp
qed

lemma unparsed_insight:
  "generate_ai_insights unparsed_analyzer content =
     (Inr fallback_analysis,
      [OpenAIRequest content, Log INFO ''AI analysis completed successfully'',
       Log ERROR ''Failed to parse AI response as JSON''])"
  by (simp add: generate_ai_insights_def unparsed_analyzer_def parse_ai_response_def
      clean_response_def strip_def is_space_def Let_def)

theorem no_keywords_minimal_result_witness:
  "generate_ai_insights unparsed_analyzer ''Welcome to our shop'' =
     (Inr fallback_analysis,
      [OpenAIRequest ''Welcome to our shop'', Log INFO ''AI analysis completed successfully'',
       Log ERROR ''Failed to parse AI response as JSON''])
   \<and> extract_keywords fallback_analysis = Inr (JArr []) \<and> \<not> truthy (JArr [])
   \<and> fst (generate_comprehensive_analysis unparsed_analyzer ''Welcome to our shop'')
       = Inr (MinimalResult fallback_analysis [] [])
   \<and> fetch_call_count (snd (generate_comprehensive_analysis unparsed_analyzer
                               ''Welcome to our shop'')) = 0"
proof -
  have k: "extract_keywords fallback_analysis = Inr (JArr [])"
    by (simp add: extract_keywords_def fallback_analysis_def)
  have "\<exists>r trace. generate_comprehensive_analysis unparsed_analyzer ''Welcome to our shop''
                     = (Inr r, trace)
      \<and> r = MinimalResult fallback_analysis [] []
      \<and> enhanced_keywords r = Some [] \<and> recommendations r = Some []
      \<and> fetch_call_count trace = 0 \<and> provider_post_count trace = 0"
    using no_keywords_minimal_result
      [of unparsed_analyzer "''Welcome to our shop''" fallback_analysis _ "JArr []"]
      unparsed_insight [of "''Welcome to our shop''"] k
    by simp
  then show ?thesis
    using unparsed_insight [of "''Welcome to our shop''"] k by auto
qed


section \<open>Enrichment unavailable\<close>

lemma fetch_unavailable:
  assumes "post keywords = TransportFailure \<or> post keywords = InvalidBody
           \<or> (\<exists>data. post keywords = Body data \<and> status_code data \<noteq> Present 20000)"
  shows "fst (fetch_search_volume_data (Some post) keywords) = None"
  using assms
  by (auto simp: fetch_search_volume_data_def Let_def
      split: sum.splits post_outcome.splits field.splits)

lemma create_enhanced_analysis_unavailable:
  assumes "dataforseo_client self = Some post"
    and "fst (fetch_search_volume_data (Some post) keywords) = None"
  shows "fst (create_enhanced_analysis self ai keywords) = Inr (BasicResult ai keywords False)"
  using assms by (simp add: create_enhanced_analysis_def Let_def split_beta)

text \<open>
  Claim C8. When the search-volume request fails in transit, its answer cannot be read,
  or the provider's answer carries a status code other than 20000, the volume enricher
  returns \<^verbatim>\<open>None\<close> instead of raising, and a pipeline run that reaches the enricher
  returns the basic result, with \<^verbatim>\<open>enhanced_analysis\<close> false, without an exception.
\<close>

theorem enrichment_failure_is_unavailable:
  "post keywords = TransportFailure \<or> post keywords = InvalidBody
   \<or> (\<exists>data. post keywords = Body data \<and> status_code data \<noteq> Present 20000) \<longrightarrow>
   fst (fetch_search_volume_data (Some post) keywords) = None
   \<and> (dataforseo_client self = Some post
        \<and> generate_ai_insights self content = (Inr ai, events)
        \<and> extract_keywords ai = Inr keywords \<and> truthy keywords \<longrightarrow>
       (\<exists>r. fst (generate_comprehensive_analysis self content) = Inr r
            \<and> r = BasicResult ai keywords False
            \<and> enhanced_analysis r = Some False))"
proof
  assume a: "post keywords = TransportFailure \<or> post keywords = InvalidBody
   \<or> (\<exists>data. post keywords = Body data \<and> status_code data \<noteq> Present 20000)"
  then have f: "fst (fetch_search_volume_data (Some post) keywords) = None"
    by (rule fetch_unavailable)
  have "\<exists>r. fst (generate_comprehensive_analysis self content) = Inr r
            \<and> r = BasicResult ai keywords False
            \<and> enhanced_analysis r = Some False"
    if c: "dataforseo_client self = Some post"
      and g: "generate_ai_insights self content = (Inr ai, events)"
      and k: "extract_keywords ai = Inr keywords" and t: "truthy keywords"
  proof -
    have "fst (create_enhanced_analysis self ai keywords) = Inr (BasicResult ai keywords False)"
      using c f by (rule create_enhanced_analysis_unavailable)
    then have "fst (generate_comprehensive_analysis self content)
                 = Inr (BasicResult ai keywords False)"
      using c g k t
      by (cases "create_enhanced_analysis self ai keywords")
         (simp add: generate_comprehensive_analysis_def)
    then show ?thesis by simp
  qed
  with f show "fst (fetch_search_volume_data (Some post) keywords) = None
   \<and> (dataforseo_client self = Some post
        \<and> generate_ai_insights self content = (Inr ai, events)
        \<and> extract_keywords ai = Inr keywords \<and> truthy keywords \<longrightarrow>
       (\<exists>r. fst (generate_comprehensive_analysis self content) = Inr r
            \<and> r = BasicResult ai keywords False
            \<and> enhanced_analysis r = Some False))"
    by blast
qed

lemma parsed_insight:
  "openai_create self content = Inr ''{}'' \<Longrightarrow> json_loads self ''{}'' = Inr parsed \<Longrightarrow>
   generate_ai_insights self content =
     (Inr parsed, [OpenAIRequest content, Log INFO ''AI analysis completed successfully''])"
  by (simp add: generate_ai_insights_def parse_ai_response_def
      clean_response_def strip_def is_space_def Let_def)

lemma sample_insight_keywords:
  "extract_keywords sample_insight = Inr sample_keywords" "truthy sample_keywords"
  by (simp_all add: extract_keywords_def sample_insight_def sample_keywords_def)

theorem enrichment_failure_is_unavailable_witness:
  "fst (fetch_search_volume_data (Some (\<lambda>keywords. Body rejected_response)) sample_keywords)
     = None
   \<and> fst (generate_comprehensive_analysis rejected_analyzer ''Welcome to our shop'')
       = Inr (BasicResult sample_insight sample_keywords False)
   \<and> fst (fetch_search_volume_data (Some (\<lambda>keywords. TransportFailure)) sample_keywords)
       = None
   \<and> fst (generate_comprehensive_analysis offline_analyzer ''Welcome to our shop'')
       = Inr (BasicResult sample_insight sample_keywords False)"
proof -
  have r: "(\<lambda>keywords. Body rejected_response) sample_keywords = Body rejected_response
           \<and> status_code rejected_response \<noteq> Present 20000"
    by (simp add: rejected_response_def)
  have gr: "generate_ai_insights rejected_analyzer ''Welcome to our shop'' =
     (Inr sample_insight,
      [OpenAIRequest ''Welcome to our shop'', Log INFO ''AI analysis completed successfully''])"
    by (rule parsed_insight) (simp_all add: rejected_analyzer_def)
  have go: "generate_ai_insights offline_analyzer ''Welcome to our shop'' =
     (Inr sample_insight,
      [OpenAIRequest ''Welcome to our shop'', Log INFO ''AI analysis completed successfully''])"
    by (rule parsed_insight) (simp_all add: offline_analyzer_def)
  have cr: "dataforseo_client rejected_analyzer = Some (\<lambda>keywords. Body rejected_response)"
    by (simp add: rejected_analyzer_def)
  have co: "dataforseo_client offline_analyzer = Some (\<lambda>keywords. TransportFailure)"
    by (simp add: offline_analyzer_def)
  have "fst (fetch_search_volume_data (Some (\<lambda>keywords. Body rejected_response))
               sample_keywords) = None
        \<and> fst (generate_comprehensive_analysis rejected_analyzer ''Welcome to our shop'')
            = Inr (BasicResult sample_insight sample_keywords False)"
    using enrichment_failure_is_unavailable
      [of "\<lambda>keywords. Body rejected_response" sample_keywords rejected_analyzer
          "''Welcome to our shop''" sample_insight
          "[OpenAIRequest ''Welcome to our shop'',
            Log INFO ''AI analysis completed successfully'']"]
      r gr cr sample_insight_keywords
    by auto
  moreover have "fst (fetch_search_volume_data (Some (\<lambda>keywords. TransportFailure))
               sample_keywords) = None
        \<and> fst (generate_comprehensive_analysis offline_analyzer ''Welcome to our shop'')
            = Inr (BasicResult sample_insight sample_keywords False)"
    using enrichment_failure_is_unavailable
      [of "\<lambda>keywords. TransportFailure" sample_keywords offline_analyzer
          "''Welcome to our shop''" sample_insight
          "[OpenAIRequest ''Welcome to our shop'',
            Log INFO ''AI analysis completed successfully'']"]
      go co sample_insight_keywords
    by auto
  ultimately show ?thesis by simp
qed


section \<open>Parsing the insight\<close>













end
